theory Spec2Isabelle
  imports Main "HOL-Library.Word"
begin

section \<open>The program \<open>p26.c\<close>: arrays and matrices\<close>

subsection \<open>Data model\<close>

text \<open>
  A C \<open>int\<close> is a 32-bit two's complement value. Comparisons on it are signed
  (\<open><s\<close>, \<open>\<le>s\<close>), \<open>i++\<close> is \<open>i + 1\<close>, and \<open>sint\<close> reads the value.
\<close>

type_synonym cint = "32 word"

text \<open>
  A read outside an array is undefined behaviour in C. The model makes it an explicit
  fault, so that every claim about a run also says that no such read happened.
\<close>

datatype fault = OutOfBounds

text \<open>Every array read of the program, with the index values it used.\<close>

datatype access = is_ArrRead: ArrRead cint | is_MatRead: MatRead cint cint

text \<open>
  The part of the process the program acts on: the bytes written to standard output so
  far. The \<open>reads\<close> field is a log of the array reads performed, in order; the program
  cannot observe it. The record is extensible: the extension stands for everything else
  of the process (arguments, environment, standard input), which \<open>main\<close> never touches.
\<close>

record world =
  stdout :: string
  reads :: "access list"

text \<open>\<open>int arr[5] = {1, 2, 3, 4, 5};\<close>\<close>

definition arr :: "cint list" where
  "arr = [1, 2, 3, 4, 5]"

text \<open>\<open>int matrix[3][3] = {{1, 2, 3}, {4, 5, 6}, {7, 8, 9}};\<close>\<close>

definition matrix :: "cint list list" where
  "matrix = [[1, 2, 3],
             [4, 5, 6],
             [7, 8, 9]]"

subsection \<open>Array reads\<close>

text \<open>The index \<open>i\<close> is inside an array of \<open>n\<close> elements.\<close>

definition in_range :: "cint \<Rightarrow> nat \<Rightarrow> bool" where
  "in_range i n = (0 \<le>s i \<and> sint i < int n)"

text \<open>The expression \<open>a[i]\<close>.\<close>

definition index :: "'a list \<Rightarrow> cint \<Rightarrow> fault + 'a" where
  "index a i = (if in_range i (length a) then Inr (a ! nat (sint i)) else Inl OutOfBounds)"

text \<open>The expression \<open>m[i][j]\<close>.\<close>

definition index2 :: "'a list list \<Rightarrow> cint \<Rightarrow> cint \<Rightarrow> fault + 'a" where
  "index2 m i j = (case index m i of Inl e \<Rightarrow> Inl e | Inr row \<Rightarrow> index row j)"

subsection \<open>Formatted output\<close>

text \<open>
  The conversion \<open>%d\<close> of \<open>printf\<close>: the decimal digits of the value, most significant
  first, with a minus sign for a negative value. \<open>digit_char\<close> is only applied to
  values below 10.
\<close>

definition digit_char :: "nat \<Rightarrow> char" where
  "digit_char d = ''0123456789'' ! d"

fun dec_nat :: "nat \<Rightarrow> string" where
  "dec_nat n = (if n < 10 then [digit_char n] else dec_nat (n div 10) @ [digit_char (n mod 10)])"

definition dec :: "cint \<Rightarrow> string" where
  "dec v = (if sint v < 0 then CHR ''-'' # dec_nat (nat (- sint v)) else dec_nat (nat (sint v)))"

text \<open>\<open>printf(s)\<close> for a format \<open>s\<close> without conversions: the bytes of \<open>s\<close> go to standard output.\<close>

definition printf :: "string \<Rightarrow> 'a world_scheme \<Rightarrow> 'a world_scheme" where
  "printf s w = w\<lparr>stdout := stdout w @ s\<rparr>"

text \<open>\<open>printf("%d ", v)\<close>: the decimal form of \<open>v\<close>, then one space.\<close>

definition printf_d :: "cint \<Rightarrow> 'a world_scheme \<Rightarrow> 'a world_scheme" where
  "printf_d v w = printf (dec v @ '' '') w"

text \<open>Logging a read.\<close>

definition log_read :: "access \<Rightarrow> 'a world_scheme \<Rightarrow> 'a world_scheme" where
  "log_read a w = w\<lparr>reads := reads w @ [a]\<rparr>"

declare dec_nat.simps [simp del]

subsection \<open>The loops of \<open>main\<close>\<close>

text \<open>Stepping a counter that is below a small bound does not wrap around.\<close>

lemma sint_step:
  fixes i :: cint
  assumes "sint i < 2147483647"
  shows "sint (i + 1) = sint i + 1"
proof -
  have "- (2 ^ 31) \<le> sint i" using sint_ge [of i] by simp
  with assms have "- (2 ^ 31) \<le> sint i + 1" "sint i + 1 < 2 ^ 31" by simp_all
  then show ?thesis
    by (simp add: signed_take_bit_int_eq_self sint_word_ariths)
qed

text \<open>
  \<open>for (int i = 0; i < 5; i++) { printf("%d ", arr[i]); }\<close>, from the counter value \<open>i\<close>.
\<close>

function arr_loop :: "cint list \<Rightarrow> cint \<Rightarrow> 'a world_scheme \<Rightarrow> fault + 'a world_scheme" where
  "arr_loop a i w =
     (if i <s 5 then
        (case index a i of
           Inl e \<Rightarrow> Inl e
         | Inr v \<Rightarrow> arr_loop a (i + 1) (printf_d v (log_read (ArrRead i) w)))
      else Inr w)"
  by pat_completeness auto
termination
  by (relation "measure (\<lambda>(a, i, w). nat (5 - sint i))")
     (auto simp: sint_step word_sless_alt)

declare arr_loop.simps [simp del]

text \<open>
  \<open>for (int j = 0; j < 3; j++) { printf("%d ", matrix[i][j]); }\<close>, the inner loop for
  row \<open>i\<close>, from the counter value \<open>j\<close>.
\<close>

function row_loop ::
  "cint list list \<Rightarrow> cint \<Rightarrow> cint \<Rightarrow> 'a world_scheme \<Rightarrow> fault + 'a world_scheme" where
  "row_loop m i j w =
     (if j <s 3 then
        (case index2 m i j of
           Inl e \<Rightarrow> Inl e
         | Inr v \<Rightarrow> row_loop m i (j + 1) (printf_d v (log_read (MatRead i j) w)))
      else Inr w)"
  by pat_completeness auto
termination
  by (relation "measure (\<lambda>(m, i, j, w). nat (3 - sint j))")
     (auto simp: sint_step word_sless_alt)

declare row_loop.simps [simp del]

text \<open>
  \<open>for (int i = 0; i < 3; i++) { (inner loop) printf("\n"); }\<close>, from the counter
  value \<open>i\<close>.
\<close>

function mat_loop :: "cint list list \<Rightarrow> cint \<Rightarrow> 'a world_scheme \<Rightarrow> fault + 'a world_scheme" where
  "mat_loop m i w =
     (if i <s 3 then
        (case row_loop m i 0 w of
           Inl e \<Rightarrow> Inl e
         | Inr w' \<Rightarrow> mat_loop m (i + 1) (printf ''\<newline>'' w'))
      else Inr w)"
  by pat_completeness auto
termination
  by (relation "measure (\<lambda>(m, i, w). nat (3 - sint i))")
     (auto simp: sint_step word_sless_alt)

declare mat_loop.simps [simp del]

subsection \<open>The operations\<close>

text \<open>
  Lines 11 to 14 of \<open>p26.c\<close>: the loop over \<open>arr\<close>, then \<open>printf("\n")\<close>.
\<close>

definition printSequence :: "'a world_scheme \<Rightarrow> fault + 'a world_scheme" where
  "printSequence w =
     (case arr_loop arr 0 w of
        Inl e \<Rightarrow> Inl e
      | Inr w' \<Rightarrow> Inr (printf ''\<newline>'' w'))"

text \<open>Lines 17 to 22 of \<open>p26.c\<close>: the nested loops over \<open>matrix\<close>.\<close>

definition printGrid :: "'a world_scheme \<Rightarrow> fault + 'a world_scheme" where
  "printGrid w = mat_loop matrix 0 w"

text \<open>
  \<open>main\<close>: the two headers, each followed by its block, then \<open>return 0\<close>. The result is
  the exit status and the world the process leaves behind.
\<close>

definition main :: "'a world_scheme \<Rightarrow> fault + (cint \<times> 'a world_scheme)" where
  "main w =
     (case printSequence (printf ''Array elements:\<newline>'' w) of
        Inl e \<Rightarrow> Inl e
      | Inr w1 \<Rightarrow>
          (case printGrid (printf ''Matrix elements:\<newline>'' w1) of
             Inl e \<Rightarrow> Inl e
           | Inr w2 \<Rightarrow> Inr (0, w2)))"

subsection \<open>What a run shows\<close>

text \<open>
  The exit status of a run started in \<open>w\<close> and the bytes it wrote to standard output:
  what came after the bytes that were there before.
\<close>

definition run :: "'a world_scheme \<Rightarrow> fault + (cint \<times> string)" where
  "run w =
     (case main w of
        Inl e \<Rightarrow> Inl e
      | Inr (r, w') \<Rightarrow> Inr (r, drop (length (stdout w)) (stdout w')))"

text \<open>The array reads a run started in \<open>w\<close> performed, in order.\<close>

definition performed :: "'a world_scheme \<Rightarrow> fault + access list" where
  "performed w =
     (case main w of
        Inl e \<Rightarrow> Inl e
      | Inr (r, w') \<Rightarrow> Inr (drop (length (reads w)) (reads w')))"

text \<open>
  A read is within bounds: an index of \<open>arr\<close> lies in \<open>[0,5)\<close>, a row and column pair of
  \<open>matrix\<close> lies in \<open>[0,3) \<times> [0,3)\<close>.
\<close>

primrec in_bounds :: "access \<Rightarrow> bool" where
  "in_bounds (ArrRead i) = (0 \<le>s i \<and> i <s 5)"
| "in_bounds (MatRead r c) = ((0 \<le>s r \<and> r <s 3) \<and> (0 \<le>s c \<and> c <s 3))"

text \<open>The lines of a text, without their newlines.\<close>

fun split_lines :: "string \<Rightarrow> string list" where
  "split_lines [] = []"
| "split_lines (c # cs) =
     (if c = CHR ''\<newline>'' then [] # split_lines cs
      else (case split_lines cs of [] \<Rightarrow> [[c]] | l # ls \<Rightarrow> (c # l) # ls))"

definition trailing_space :: "string \<Rightarrow> bool" where
  "trailing_space l = (l \<noteq> [] \<and> last l = CHR '' '')"

text \<open>Words put one after the other with a single space between two neighbours.\<close>

fun separated :: "string list \<Rightarrow> string" where
  "separated [] = []"
| "separated [x] = x"
| "separated (x # y # ys) = x @ '' '' @ separated (y # ys)"

section \<open>Properties\<close>

subsection \<open>Evaluation rules\<close>

lemmas cmp_simps = word_sless_alt word_sle_eq

lemmas io_simps = printf_d_def printf_def log_read_def

lemma dec_digits:
  "dec 1 = ''1''" "dec 2 = ''2''" "dec 3 = ''3''" "dec 4 = ''4''" "dec 5 = ''5''"
  "dec 6 = ''6''" "dec 7 = ''7''" "dec 8 = ''8''" "dec 9 = ''9''"
  by (simp_all add: dec_def dec_nat.simps digit_char_def)

lemma length_5E:
  assumes "length a = 5"
  obtains a0 a1 a2 a3 a4 where "a = [a0, a1, a2, a3, a4]"
  using assms by (auto simp: length_Suc_conv eval_nat_numeral)

lemma length_3E:
  assumes "length a = 3"
  obtains a0 a1 a2 where "a = [a0, a1, a2]"
  using assms by (auto simp: length_Suc_conv eval_nat_numeral)

text \<open>A counter between 0 and a small bound is one of finitely many values.\<close>

lemma below_5:
  fixes i :: cint
  assumes "0 \<le>s i" and "i <s 5"
  shows "i \<in> {0, 1, 2, 3, 4}"
proof -
  have "0 \<le> sint i" "sint i < 5" using assms by (simp_all add: cmp_simps)
  then have "sint i \<in> {0, 1, 2, 3, 4}" by auto
  then have "word_of_int (sint i) \<in> (word_of_int ` {0, 1, 2, 3, 4} :: cint set)" by (rule imageI)
  then show ?thesis by simp
qed

lemma below_3:
  fixes i :: cint
  assumes "0 \<le>s i" and "i <s 3"
  shows "i \<in> {0, 1, 2}"
proof -
  have "0 \<le> sint i" "sint i < 3" using assms by (simp_all add: cmp_simps)
  then have "sint i \<in> {0, 1, 2}" by auto
  then have "word_of_int (sint i) \<in> (word_of_int ` {0, 1, 2} :: cint set)" by (rule imageI)
  then show ?thesis by simp
qed

subsection \<open>The loops, for any contents of the arrays\<close>

text \<open>
  Over any array of five elements the first loop reads the indices 0 to 4 in order and
  writes each element followed by one space.
\<close>

lemma arr_loop_run:
  assumes "length a = 5"
  shows "arr_loop a 0 w =
    Inr (w\<lparr>stdout := stdout w @ concat (map (\<lambda>v. dec v @ '' '') a),
           reads := reads w @ map ArrRead [0, 1, 2, 3, 4]\<rparr>)"
proof -
  from assms obtain a0 a1 a2 a3 a4 where a: "a = [a0, a1, a2, a3, a4]"
    by (rule length_5E)
  show ?thesis unfolding a
    by (simp add: arr_loop.simps index_def in_range_def io_simps cmp_simps)
qed

text \<open>
  The fault of the model is live: over an array with fewer than five elements the same
  loop runs into a read outside the array.
\<close>

lemma arr_loop_short:
  assumes "0 \<le> sint i" and "sint i \<le> int (length a)" and "length a < 5"
  shows "arr_loop a i w = Inl OutOfBounds"
  using assms
proof (induction a i w rule: arr_loop.induct)
  case (1 a i w)
  from "1.prems" have lt: "i <s 5" by (simp add: cmp_simps)
  show ?case
  proof (cases "sint i < int (length a)")
    case True
    then have ix: "index a i = Inr (a ! nat (sint i))"
      using "1.prems" by (simp add: index_def in_range_def cmp_simps)
    have st: "sint (i + 1) = sint i + 1"
      using "1.prems" by (intro sint_step) simp
    have "arr_loop a (i + 1) (printf_d (a ! nat (sint i)) (log_read (ArrRead i) w))
        = Inl OutOfBounds"
      using lt ix True "1.prems" st by (intro "1.IH") simp_all
    then show ?thesis
      using lt ix by (subst arr_loop.simps) simp
  next
    case False
    then have "index a i = Inl OutOfBounds"
      by (simp add: index_def in_range_def)
    then show ?thesis
      using lt by (subst arr_loop.simps) simp
  qed
qed

lemma row_loop_run:
  assumes "index m i = Inr row" and "length row = 3"
  shows "row_loop m i 0 w =
    Inr (w\<lparr>stdout := stdout w @ concat (map (\<lambda>v. dec v @ '' '') row),
           reads := reads w @ map (MatRead i) [0, 1, 2]\<rparr>)"
proof -
  from assms(2) obtain a0 a1 a2 where a: "row = [a0, a1, a2]"
    by (rule length_3E)
  show ?thesis using assms(1) unfolding a
    by (simp add: row_loop.simps index2_def index_def in_range_def io_simps cmp_simps)
qed

lemma mat_loop_run:
  assumes "length m = 3" and "\<forall>row \<in> set m. length row = 3"
  shows "mat_loop m 0 w =
    Inr (w\<lparr>stdout := stdout w @
             concat (map (\<lambda>row. concat (map (\<lambda>v. dec v @ '' '') row) @ ''\<newline>'') m),
           reads := reads w @ concat (map (\<lambda>i. map (MatRead i) [0, 1, 2]) [0, 1, 2])\<rparr>)"
proof -
  from assms(1) obtain r0 r1 r2 where m: "m = [r0, r1, r2]"
    by (rule length_3E)
  have ix: "index m 0 = Inr r0" "index m 1 = Inr r1" "index m 2 = Inr r2"
    by (simp_all add: m index_def in_range_def cmp_simps)
  have len: "length r0 = 3" "length r1 = 3" "length r2 = 3"
    using assms(2) by (simp_all add: m)
  note rows = row_loop_run [OF ix(1) len(1)] row_loop_run [OF ix(2) len(2)]
    row_loop_run [OF ix(3) len(3)]
  have out: "concat (map f m) = f r0 @ f r1 @ f r2" for f :: "cint list \<Rightarrow> string"
    by (simp add: m)
  show ?thesis
    by (simp add: mat_loop.simps rows out cmp_simps printf_def)
qed

subsection \<open>The program on its own arrays\<close>

lemma printSequence_run:
  "printSequence w =
     Inr (w\<lparr>stdout := stdout w @ concat (map (\<lambda>v. dec v @ '' '') arr) @ ''\<newline>'',
            reads := reads w @ map ArrRead [0, 1, 2, 3, 4]\<rparr>)"
  by (simp add: printSequence_def arr_loop_run arr_def printf_def)

lemma printGrid_run:
  "printGrid w =
     Inr (w\<lparr>stdout := stdout w @
              concat (map (\<lambda>row. concat (map (\<lambda>v. dec v @ '' '') row) @ ''\<newline>'') matrix),
            reads := reads w @ concat (map (\<lambda>i. map (MatRead i) [0, 1, 2]) [0, 1, 2])\<rparr>)"
  by (simp add: printGrid_def mat_loop_run matrix_def)

lemma main_run:
  "main w =
     Inr (0, w\<lparr>stdout := stdout w @
       ''Array elements:\<newline>1 2 3 4 5 \<newline>Matrix elements:\<newline>1 2 3 \<newline>4 5 6 \<newline>7 8 9 \<newline>'',
       reads := reads w @
         [ArrRead 0, ArrRead 1, ArrRead 2, ArrRead 3, ArrRead 4,
          MatRead 0 0, MatRead 0 1, MatRead 0 2,
          MatRead 1 0, MatRead 1 1, MatRead 1 2,
          MatRead 2 0, MatRead 2 1, MatRead 2 2]\<rparr>)"
  by (simp add: main_def printSequence_run printGrid_run printf_def arr_def matrix_def dec_digits)

lemma run_eq:
  "run w = Inr (0,
     ''Array elements:\<newline>1 2 3 4 5 \<newline>Matrix elements:\<newline>1 2 3 \<newline>4 5 6 \<newline>7 8 9 \<newline>'')"
  by (simp add: run_def main_run)

lemma performed_eq:
  "performed w = Inr
     [ArrRead 0, ArrRead 1, ArrRead 2, ArrRead 3, ArrRead 4,
      MatRead 0 0, MatRead 0 1, MatRead 0 2,
      MatRead 1 0, MatRead 1 1, MatRead 1 2,
      MatRead 2 0, MatRead 2 1, MatRead 2 2]"
  by (simp add: performed_def main_run)

section \<open>The claims of the specification\<close>

text \<open>
  Claim C1. A run writes to standard output exactly the bytes
  \<open>Array elements:\n1 2 3 4 5 \nMatrix elements:\n1 2 3 \n4 5 6 \n7 8 9 \n\<close>, whatever
  the rest of the process is (in particular with no arguments). Of the six lines of this
  text, the two headers (the first and the third) do not end with a space, and the four
  lines of numbers do.
\<close>

theorem stdout_exact:
  "map_sum id snd (run w) = Inr
     ''Array elements:\<newline>1 2 3 4 5 \<newline>Matrix elements:\<newline>1 2 3 \<newline>4 5 6 \<newline>7 8 9 \<newline>''
   \<and> map trailing_space (split_lines
     ''Array elements:\<newline>1 2 3 4 5 \<newline>Matrix elements:\<newline>1 2 3 \<newline>4 5 6 \<newline>7 8 9 \<newline>'')
     = [False, True, False, True, True, True]"
  by (simp add: run_eq trailing_space_def)

text \<open>
  Claim C2. For every index \<open>i\<close> with \<open>0 \<le> i < 5\<close>, the read \<open>arr[i]\<close> is defined and
  gives \<open>i + 1\<close>.
\<close>

theorem arr_element:
  "0 \<le>s i \<Longrightarrow> i <s 5 \<Longrightarrow> index arr i = Inr (i + 1)"
proof -
  assume "0 \<le>s i" and "i <s 5"
  then have "i \<in> {0, 1, 2, 3, 4}" by (rule below_5)
  then show ?thesis
    by (auto simp: index_def in_range_def arr_def cmp_simps)
qed

theorem arr_element_witness:
  "0 \<le>s (3 :: cint) \<and> (3 :: cint) <s 5 \<and> index arr 3 = Inr 4"
  using arr_element [of 3] by (simp add: cmp_simps)

text \<open>
  Claim C3. For every row \<open>r\<close> and column \<open>c\<close> with \<open>0 \<le> r < 3\<close> and \<open>0 \<le> c < 3\<close>, the
  read \<open>matrix[r][c]\<close> is defined and gives \<open>r * 3 + c + 1\<close>.
\<close>

theorem matrix_element:
  "0 \<le>s r \<Longrightarrow> r <s 3 \<Longrightarrow> 0 \<le>s c \<Longrightarrow> c <s 3 \<Longrightarrow>
   index2 matrix r c = Inr (r * 3 + c + 1)"
proof -
  assume "0 \<le>s r" and "r <s 3" and "0 \<le>s c" and "c <s 3"
  then have "r \<in> {0, 1, 2}" and "c \<in> {0, 1, 2}" by (auto dest: below_3)
  then show ?thesis
    by (auto simp: index2_def index_def in_range_def matrix_def cmp_simps)
qed

theorem matrix_element_witness:
  "0 \<le>s (1 :: cint) \<and> (1 :: cint) <s 3 \<and> 0 \<le>s (2 :: cint) \<and> (2 :: cint) <s 3
   \<and> index2 matrix 1 2 = Inr 6"
  using matrix_element [of 1 2] by (simp add: cmp_simps)

text \<open>
  Claim C4. From every starting world \<open>main\<close> returns, without a fault, the exit
  status 0.
\<close>

theorem main_returns_zero:
  "map_sum id fst (main w) = Inr 0"
  by (simp add: main_run)

text \<open>
  Claim C5. \<open>printSequence\<close> takes nothing but the world. It never faults. It reads
  \<open>arr\<close> at the indices 0, 1, 2, 3, 4 in this order and writes every element followed by
  one space, then one newline. The line written is the elements of \<open>arr\<close> separated by
  single spaces, one more space after the last element, and the newline: the bytes
  \<open>1 2 3 4 5 \n\<close>. Nothing else of the world changes: the result is the starting world
  with a longer standard output (and read log).
\<close>

theorem printSequence_writes:
  "printSequence w =
     Inr (w\<lparr>stdout := stdout w @ concat (map (\<lambda>v. dec v @ '' '') arr) @ ''\<newline>'',
            reads := reads w @ map ArrRead [0, 1, 2, 3, 4]\<rparr>)
   \<and> concat (map (\<lambda>v. dec v @ '' '') arr) @ ''\<newline>''
       = separated (map dec arr) @ '' '' @ ''\<newline>''
   \<and> concat (map (\<lambda>v. dec v @ '' '') arr) @ ''\<newline>'' = ''1 2 3 4 5 \<newline>''"
  by (simp add: printSequence_run) (simp add: arr_def dec_digits)

text \<open>
  Claim C6. \<open>printGrid\<close> takes nothing but the world. It never faults. For the rows
  0, 1, 2 in this order, and within a row for the columns 0, 1, 2 in this order, it reads
  \<open>matrix\<close> at that row and column and writes the element followed by one space; after
  the three elements of a row it writes one newline. Each line written is the elements
  of the row separated by single spaces, one more space after the last element, and the
  newline: the bytes \<open>1 2 3 \n4 5 6 \n7 8 9 \n\<close>. Nothing else of the world changes.
\<close>

theorem printGrid_writes:
  "printGrid w =
     Inr (w\<lparr>stdout := stdout w @
              concat (map (\<lambda>row. concat (map (\<lambda>v. dec v @ '' '') row) @ ''\<newline>'') matrix),
            reads := reads w @ concat (map (\<lambda>r. map (\<lambda>c. MatRead r c) [0, 1, 2]) [0, 1, 2])\<rparr>)
   \<and> concat (map (\<lambda>row. concat (map (\<lambda>v. dec v @ '' '') row) @ ''\<newline>'') matrix)
       = concat (map (\<lambda>row. separated (map dec row) @ '' '' @ ''\<newline>'') matrix)
   \<and> concat (map (\<lambda>row. concat (map (\<lambda>v. dec v @ '' '') row) @ ''\<newline>'') matrix)
       = ''1 2 3 \<newline>4 5 6 \<newline>7 8 9 \<newline>''"
  by (simp add: printGrid_run) (simp add: matrix_def dec_digits)

text \<open>
  Claim C7. Two runs, from any two starting worlds (which may differ in what was
  written before and in everything else of the process), return the same exit status and
  write the same bytes.
\<close>

theorem run_deterministic:
  fixes w1 :: "'a world_scheme" and w2 :: "'b world_scheme"
  shows "run w1 = run w2"
  by (simp add: run_eq)

text \<open>
  Claim C8. A run never faults on a read outside an array, and every read it performs
  is within bounds: every index of \<open>arr\<close> used lies in \<open>[0,5)\<close> and every row and column
  pair of \<open>matrix\<close> used lies in \<open>[0,3) \<times> [0,3)\<close>. These bounds of the loops are the
  dimensions of the arrays: \<open>arr\<close> has 5 elements, \<open>matrix\<close> has 3 rows of 3 elements.
\<close>

theorem reads_in_bounds:
  "(case performed w of Inl e \<Rightarrow> False | Inr accs \<Rightarrow> list_all in_bounds accs)
   \<and> length arr = 5 \<and> length matrix = 3 \<and> list_all (\<lambda>row. length row = 3) matrix"
  by (simp add: performed_eq cmp_simps arr_def matrix_def)

text \<open>
  Claim C9. Every loop of the model is a total function (its termination is proved
  where it is defined, by the distance of the counter to the bound), and a run from any
  starting world completes: it returns a result after exactly 5 passes through the body
  of the loop over \<open>arr\<close> (one read of \<open>arr\<close> each) and 3 times 3 passes through the body
  of the inner loop over \<open>matrix\<close> (one read of \<open>matrix\<close> each), having written 65 bytes.
\<close>

theorem run_bounded:
  "map_sum id (\<lambda>accs. (length (filter is_ArrRead accs), length (filter is_MatRead accs)))
     (performed w) = Inr (5, 3 * 3)
   \<and> map_sum id (\<lambda>(r, out). length out) (run w) = Inr 65"
  by (simp add: performed_eq run_eq)

text \<open>
  Claim C10. For every index \<open>j\<close> with \<open>0 \<le> j < 3\<close>, the reads \<open>arr[j]\<close> and
  \<open>matrix[0][j]\<close> are defined and give the same value; the row \<open>matrix[0]\<close> is the first
  three elements of \<open>arr\<close>.
\<close>

theorem first_row_is_prefix:
  "0 \<le>s j \<Longrightarrow> j <s 3 \<Longrightarrow>
   (\<exists>v. index arr j = Inr v \<and> index2 matrix 0 j = Inr v) \<and> index matrix 0 = Inr (take 3 arr)"
proof -
  assume "0 \<le>s j" and "j <s 3"
  then have "j \<in> {0, 1, 2}" by (rule below_3)
  then show ?thesis
    by (auto simp: index2_def index_def in_range_def matrix_def arr_def cmp_simps)
qed

theorem first_row_is_prefix_witness:
  "0 \<le>s (2 :: cint) \<and> (2 :: cint) <s 3
   \<and> (\<exists>v. index arr 2 = Inr v \<and> index2 matrix 0 2 = Inr v) \<and> index matrix 0 = Inr (take 3 arr)"
  using first_row_is_prefix [of 2] by (simp add: cmp_simps)

end
